theory Spec2Isabelle
  imports Complex_Main "HOL-Library.Word"
begin

section \<open>Values\<close>

text \<open>
  A sample of a decoded image is an unsigned byte. The buffer handed to the feature
  extractors is the array of an image forced to RGB: rows of pixels, each pixel three
  samples. A double is the real number it denotes; the one non-number that the
  reductions of this program can produce, NaN (the mean of an empty array), is
  \<open>None\<close>, and every comparison with it is false, as in Python. A float literal of
  the source is written as the decimal it abbreviates.
\<close>

type_synonym sample = "8 word"
type_synonym pixel = "sample \<times> sample \<times> sample"
type_synonym ndarray = "pixel list list"
type_synonym pyfloat = "real option"

datatype pyval =
    PStr string
  | PInt int
  | PFloat pyfloat
  | PBool bool
  | PNpBool bool
  | PList "pyval list"
  | PDict "(string \<times> pyval) list"

type_synonym pydict = "(string \<times> pyval) list"

text \<open>
  A dictionary keeps its keys in the order they were inserted: \<open>key in d\<close> and the
  list of keys.
\<close>

definition py_in :: "string \<Rightarrow> pydict \<Rightarrow> bool" where
  "py_in k d = (map_of d k \<noteq> None)"

definition py_keys :: "pydict \<Rightarrow> string list" where
  "py_keys d = map fst d"

section \<open>numpy\<close>

definition flt_lt :: "pyfloat \<Rightarrow> real \<Rightarrow> bool" where
  "flt_lt x c = (case x of None \<Rightarrow> False | Some v \<Rightarrow> v < c)"

definition flt_gt :: "pyfloat \<Rightarrow> real \<Rightarrow> bool" where
  "flt_gt x c = (case x of None \<Rightarrow> False | Some v \<Rightarrow> v > c)"

text \<open>
  \<open>np.mean\<close> of all samples: the sum of the bytes, which no addition rounds, divided by
  their number. numpy returns the double nearest to this quotient; \<open>np_mean\<close> is the
  quotient. Rounding keeps the order, and a quotient other than 100 or 150 of a buffer of
  fewer than \<open>2^46\<close> samples is further from them than rounding moves it, so the
  comparisons the program makes with 100 and 150 come out the same on both.
\<close>

definition np_mean :: "real list \<Rightarrow> pyfloat" where
  "np_mean xs = (if xs = [] then None else Some (sum_list xs / real (length xs)))"

definition val :: "sample \<Rightarrow> real" where
  "val s = real (unat s)"

text \<open>All samples of the buffer, in row-major order.\<close>

definition samples :: "ndarray \<Rightarrow> real list" where
  "samples a = concat (map (\<lambda>row. concat (map (\<lambda>(r, g, b). [val r, val g, val b]) row)) a)"

text \<open>
  The other reductions round after every operation, in an order that is numpy's own, and
  a rounding error can carry a result across a threshold of the program. They are taken
  as numpy returns them, as parameters of the model:
  \<^item> \<open>np_var a\<close> is \<open>np.var(a)\<close>, the variance of all samples;
  \<^item> \<open>np_mean_axis2 a\<close> is \<open>np.mean(a, axis=2)\<close>, the grey value of every pixel;
  \<^item> \<open>np_std g\<close> is \<open>np.std(g)\<close> of a grid of grey values;
  \<^item> \<open>np_std_axis01 a\<close> is \<open>np.std(a, axis=(0, 1))\<close>, one standard deviation per
    channel, each over all pixels;
  \<^item> \<open>np_abs_diff0 g\<close> is \<open>np.abs(np.diff(g, axis=0))\<close>, each row minus the row above
    it, one row fewer than \<open>g\<close>;
  \<^item> \<open>np_mean2 g\<close> is \<open>np.mean(g)\<close> of a grid of doubles.
\<close>

record numpy =
  np_var :: "ndarray \<Rightarrow> pyfloat"
  np_mean_axis2 :: "ndarray \<Rightarrow> real list list"
  np_std :: "real list list \<Rightarrow> pyfloat"
  np_std_axis01 :: "ndarray \<Rightarrow> pyfloat \<times> pyfloat \<times> pyfloat"
  np_abs_diff0 :: "real list list \<Rightarrow> real list list"
  np_mean2 :: "real list list \<Rightarrow> pyfloat"

text \<open>
  \<open>np.max\<close> of the three values: the largest of them, which no rounding touches; NaN
  propagates.
\<close>

fun fmax :: "pyfloat \<Rightarrow> pyfloat \<Rightarrow> pyfloat" where
  "fmax (Some x) (Some y) = Some (max x y)"
| "fmax _ _ = None"

definition np_max :: "pyfloat \<times> pyfloat \<times> pyfloat \<Rightarrow> pyfloat" where
  "np_max t = (case t of (x, y, z) \<Rightarrow> fmax (fmax x y) z)"

section \<open>Feature extractors and classifiers\<close>

definition analyze_texture :: "numpy \<Rightarrow> ndarray \<Rightarrow> pyfloat" where
  "analyze_texture np img_array =
     (let gray = np_mean_axis2 np img_array; texture = np_std np gray in texture)"

definition detect_mineralization :: "numpy \<Rightarrow> ndarray \<Rightarrow> bool" where
  "detect_mineralization np img_array =
     (let color_std = np_std_axis01 np img_array in flt_gt (np_max color_std) 50)"

definition detect_edges :: "numpy \<Rightarrow> ndarray \<Rightarrow> real list list" where
  "detect_edges np img_array =
     (let gray = np_mean_axis2 np img_array; edges = np_abs_diff0 np gray in edges)"

text \<open>
  The double of the literal \<open>0.3\<close> lies below \<open>3 / 10\<close> with no double between them,
  so a double exceeds the one exactly when it exceeds the other.
\<close>

definition identify_bone_structure :: "numpy \<Rightarrow> ndarray \<Rightarrow> bool" where
  "identify_bone_structure np img_array =
     (let edges = detect_edges np img_array in flt_gt (np_mean2 np edges) (3 / 10))"

definition detect_fossil_features :: "numpy \<Rightarrow> ndarray \<Rightarrow> pydict" where
  "detect_fossil_features np img_array =
     (let texture_score = analyze_texture np img_array;
          mineralization = detect_mineralization np img_array;
          bone_structure = identify_bone_structure np img_array
      in [(''texture_score'', PFloat texture_score),
          (''mineralization_detected'', PNpBool mineralization),
          (''bone_structure_visible'', PNpBool bone_structure),
          (''confidence'', PFloat (Some (75 / 100)))])"

definition species_database :: "(string \<times> string list) list" where
  "species_database =
     [(''Permineralized Bone'', [''Tyrannosaurus Rex'', ''Triceratops'', ''Velociraptor'']),
      (''Petrified Wood'', [''Araucarioxylon'', ''Archaeopteris'', ''Cordaites'']),
      (''Shell Fragment'', [''Ammonite'', ''Brachiopod'', ''Trilobite''])]"

definition suggest_species :: "string \<Rightarrow> string list" where
  "suggest_species fossil_type =
     (case map_of species_database fossil_type of
        Some names \<Rightarrow> names
      | None \<Rightarrow> [''Unknown''])"

definition classify_fossil :: "ndarray \<Rightarrow> pydict" where
  "classify_fossil img_array =
     (let avg_intensity = np_mean (samples img_array);
          (fossil_type, period) =
            (if flt_lt avg_intensity 100 then (''Permineralized Bone'', ''Mesozoic'')
             else if flt_lt avg_intensity 150 then (''Petrified Wood'', ''Paleozoic'')
             else (''Shell Fragment'', ''Cenozoic''))
      in [(''primary_type'', PStr fossil_type),
          (''geological_period'', PStr period),
          (''possible_species'', PList (map PStr (suggest_species fossil_type))),
          (''confidence'', PFloat (Some (68 / 100)))])"

definition estimate_age :: "ndarray \<Rightarrow> pydict" where
  "estimate_age img_array =
     [(''estimated_age_million_years'', PStr ''65-230''),
      (''geological_era'', PStr ''Mesozoic''),
      (''confidence'', PStr ''Medium''),
      (''notes'', PStr ''Requires laboratory analysis for precise dating'')]"

definition assess_preservation :: "numpy \<Rightarrow> ndarray \<Rightarrow> pydict" where
  "assess_preservation np img_array =
     (let color_variance = np_var np img_array;
          (quality, score) =
            (if flt_gt color_variance 1000 then (''Excellent'', 92 / 10)
             else if flt_gt color_variance 500 then (''Good'', 75 / 10)
             else (''Fair'', 58 / 10))
      in [(''quality_rating'', PStr quality),
          (''preservation_score'', PFloat (Some score)),
          (''completeness'', PStr ''Partial''),
          (''recommended_preservation'', PStr ''Climate-controlled storage'')])"

section \<open>The analyzer, its environment and the world it changes\<close>

text \<open>
  An exception is a value: its class name and its message (\<open>str(e)\<close>). What the
  program asks of the image library, the clock, the file system and the serialisers is a
  parameter of the model, gathered in an environment; the type of decoded images is left
  open:
  \<^item> \<open>numpy\<close> is numpy, as above;
  \<^item> \<open>image_open\<close>, \<open>img_mode\<close>, \<open>img_convert\<close>, \<open>img_size\<close> (width, height) are
    \<open>Image.open\<close>, \<open>img.mode\<close>, \<open>img.convert\<close>, \<open>img.size\<close>; \<open>np_array\<close> is
    \<open>np.array(img)\<close>, which reads the pixels and can fail on a damaged file;
  \<^item> \<open>isoformat_now n\<close> is \<open>datetime.now().isoformat()\<close> at the \<open>n\<close>-th reading of
    the clock;
  \<^item> \<open>path_exists\<close> is \<open>Path.exists\<close>; \<open>iterdir\<close> lists a directory, each entry as
    the pair of \<open>str(entry)\<close> and \<open>entry.name\<close>;
  \<^item> \<open>open_w\<close> is the exception, if any, of opening a path for writing;
  \<^item> \<open>json_dump\<close> gives the text \<open>json.dump\<close> writes and the exception that may end
    it; \<open>str_of\<close> is \<open>str\<close> on a value that is not a string.

  What the program changes is kept in two records that are passed through every call:
  the analyzer instance and the world (the number of clock readings so far, the lines
  printed, the contents of the files).
\<close>

datatype exn = Exn string string

fun str_exn :: "exn \<Rightarrow> string" where
  "str_exn (Exn cls msg) = msg"

record 'img env =
  numpy :: numpy
  image_open :: "string \<Rightarrow> exn + 'img"
  img_mode :: "'img \<Rightarrow> string"
  img_convert :: "'img \<Rightarrow> string \<Rightarrow> exn + 'img"
  img_size :: "'img \<Rightarrow> nat \<times> nat"
  np_array :: "'img \<Rightarrow> exn + ndarray"
  isoformat_now :: "nat \<Rightarrow> string"
  path_exists :: "string \<Rightarrow> bool"
  iterdir :: "string \<Rightarrow> exn + (string \<times> string) list"
  open_w :: "string \<Rightarrow> exn option"
  json_dump :: "pyval \<Rightarrow> string \<times> exn option"
  str_of :: "pyval \<Rightarrow> string"

record analyzer =
  model_path :: "string option"
  analysis_history :: "pydict list"

record world =
  clock :: nat
  stdout :: "string list"
  files :: "string \<rightharpoonup> string"

definition init :: "string option \<Rightarrow> analyzer" where
  "init mp = \<lparr>model_path = mp, analysis_history = []\<rparr>"

definition print :: "string \<Rightarrow> world \<Rightarrow> world" where
  "print line w = w\<lparr>stdout := stdout w @ [line]\<rparr>"

subsection \<open>analyze_image\<close>

definition analyze_image ::
  "'img env \<Rightarrow> string \<Rightarrow> analyzer \<times> world \<Rightarrow> pydict \<times> analyzer \<times> world" where
  "analyze_image env image_path s =
     (case s of (self, w) \<Rightarrow>
      (case image_open env image_path of
         Inl e \<Rightarrow> ([(''error'', PStr (str_exn e)), (''image_path'', PStr image_path)], self, w)
       | Inr img0 \<Rightarrow>
          (case (if img_mode env img0 \<noteq> ''RGB'' then img_convert env img0 ''RGB'' else Inr img0) of
             Inl e \<Rightarrow> ([(''error'', PStr (str_exn e)), (''image_path'', PStr image_path)], self, w)
           | Inr img \<Rightarrow>
              (let (width, height) = img_size env img in
               case np_array env img of
                 Inl e \<Rightarrow>
                   ([(''error'', PStr (str_exn e)), (''image_path'', PStr image_path)], self, w)
               | Inr img_array \<Rightarrow>
              (let avg_brightness = np_mean (samples img_array);
                   color_variance = np_var (numpy env) img_array;
                   result =
                     [(''timestamp'', PStr (isoformat_now env (clock w))),
                      (''image_path'', PStr image_path),
                      (''image_dimensions'',
                         PDict [(''width'', PInt (int width)), (''height'', PInt (int height))]),
                      (''image_properties'',
                         PDict [(''brightness'', PFloat avg_brightness),
                                (''color_variance'', PFloat color_variance)]),
                      (''fossil_detection'', PDict (detect_fossil_features (numpy env) img_array)),
                      (''classification'', PDict (classify_fossil img_array)),
                      (''age_estimation'', PDict (estimate_age img_array)),
                      (''preservation_quality'', PDict (assess_preservation (numpy env) img_array))]
               in (result,
                   self\<lparr>analysis_history := analysis_history self @ [result]\<rparr>,
                   w\<lparr>clock := Suc (clock w)\<rparr>))))))"

subsection \<open>batch_analyze\<close>

text \<open>
  \<open>Path.suffix\<close>: the part of the entry's name from its last dot, unless that dot is
  the first or the last character; \<open>lower\<close> on the ASCII letters.
\<close>

definition rfind :: "char \<Rightarrow> string \<Rightarrow> nat option" where
  "rfind c name =
     (let k = length (takeWhile (\<lambda>x. x \<noteq> c) (rev name))
      in if k = length name then None else Some (length name - 1 - k))"

definition suffix :: "string \<Rightarrow> string" where
  "suffix name =
     (case rfind (CHR ''.'') name of
        None \<Rightarrow> []
      | Some i \<Rightarrow> if 0 < i \<and> i < length name - 1 then drop i name else [])"

definition lower :: "string \<Rightarrow> string" where
  "lower s = map (\<lambda>c. if 65 \<le> (of_char c :: nat) \<and> (of_char c :: nat) \<le> 90
                        then char_of ((of_char c :: nat) + 32) else c) s"

definition image_extensions :: "string list" where
  "image_extensions = [''.jpg'', ''.jpeg'', ''.png'', ''.bmp'', ''.tiff'']"

text \<open>The loop over the entries: each entry is the pair of its path and its name.\<close>

fun analyze_entries ::
  "'img env \<Rightarrow> (string \<times> string) list \<Rightarrow> pydict list \<Rightarrow> analyzer \<times> world
     \<Rightarrow> pydict list \<times> analyzer \<times> world" where
  "analyze_entries env [] results s = (results, s)"
| "analyze_entries env ((img_file, name) # rest) results s =
     (if lower (suffix name) \<in> set image_extensions
      then (case analyze_image env img_file (fst s, print (''Analyzing: '' @ name) (snd s)) of
              (result, s') \<Rightarrow> analyze_entries env rest (results @ [result]) s')
      else analyze_entries env rest results s)"

definition batch_analyze ::
  "'img env \<Rightarrow> string \<Rightarrow> analyzer \<times> world \<Rightarrow> (exn + pydict list) \<times> analyzer \<times> world" where
  "batch_analyze env directory s =
     (if \<not> path_exists env directory
      then (Inr [ [(''error'', PStr (''Directory not found: '' @ directory))] ], s)
      else (case iterdir env directory of
              Inl e \<Rightarrow> (Inl e, s)
            | Inr entries \<Rightarrow>
                (case analyze_entries env entries [] s of
                   (results, s') \<Rightarrow> (Inr results, s'))))"

subsection \<open>export_results\<close>

definition getitem :: "pyval \<Rightarrow> string \<Rightarrow> exn + pyval" where
  "getitem v k =
     (case v of
        PDict d \<Rightarrow> (case map_of d k of None \<Rightarrow> Inl (Exn ''KeyError'' k) | Some x \<Rightarrow> Inr x)
      | PList xs \<Rightarrow> Inl (Exn ''TypeError'' ''list indices must be integers or slices, not str'')
      | PStr x \<Rightarrow> Inl (Exn ''TypeError'' ''string indices must be integers'')
      | _ \<Rightarrow> Inl (Exn ''TypeError'' ''object is not subscriptable''))"

definition bind_exn :: "exn + 'a \<Rightarrow> ('a \<Rightarrow> exn + 'b) \<Rightarrow> exn + 'b" where
  "bind_exn r f = (case r of Inl e \<Rightarrow> Inl e | Inr x \<Rightarrow> f x)"

text \<open>
  The csv writer with its default dialect: a field that holds the delimiter, the quote
  character, a carriage return or a line feed is quoted, its quote characters doubled;
  a record ends with carriage return and line feed.
\<close>

definition csv_field :: "'img env \<Rightarrow> pyval \<Rightarrow> string" where
  "csv_field env v =
     (let text = (case v of PStr x \<Rightarrow> x | _ \<Rightarrow> str_of env v)
      in if \<exists>c \<in> set text. c \<in> {CHR '','', CHR 0x22, CHR 0x0D, CHR 0x0A}
         then [CHR 0x22] @ concat (map (\<lambda>c. if c = CHR 0x22 then [c, c] else [c]) text) @ [CHR 0x22]
         else text)"

fun join_fields :: "string list \<Rightarrow> string" where
  "join_fields [] = []"
| "join_fields [x] = x"
| "join_fields (x # y # ys) = x @ '','' @ join_fields (y # ys)"

definition csv_line :: "'img env \<Rightarrow> pyval list \<Rightarrow> string" where
  "csv_line env vs = join_fields (map (csv_field env) vs) @ [CHR 0x0D, CHR 0x0A]"

definition fieldnames :: "string list" where
  "fieldnames = [''timestamp'', ''image_path'', ''fossil_type'', ''age'', ''quality'']"

text \<open>The row of one history entry; a missing key raises.\<close>

definition row_of :: "pydict \<Rightarrow> exn + pyval list" where
  "row_of result =
     bind_exn (getitem (PDict result) ''timestamp'') (\<lambda>ts.
     bind_exn (getitem (PDict result) ''image_path'') (\<lambda>ip.
     bind_exn (bind_exn (getitem (PDict result) ''classification'')
                 (\<lambda>c. getitem c ''primary_type'')) (\<lambda>ft.
     bind_exn (bind_exn (getitem (PDict result) ''age_estimation'')
                 (\<lambda>a. getitem a ''estimated_age_million_years'')) (\<lambda>age.
     bind_exn (bind_exn (getitem (PDict result) ''preservation_quality'')
                 (\<lambda>q. getitem q ''quality_rating'')) (\<lambda>ql.
     Inr [ts, ip, ft, age, ql])))))"

text \<open>
  The loop of the csv export: the text written so far, and the exception that ended the
  loop, if one did.
\<close>

fun write_rows :: "'img env \<Rightarrow> pydict list \<Rightarrow> string \<times> exn option" where
  "write_rows env [] = ([], None)"
| "write_rows env (result # rest) =
     (if \<not> py_in ''error'' result
      then (case row_of result of
              Inl e \<Rightarrow> ([], Some e)
            | Inr vs \<Rightarrow> (case write_rows env rest of
                           (text, e) \<Rightarrow> (csv_line env vs @ text, e)))
      else write_rows env rest)"

definition export_csv :: "'img env \<Rightarrow> string \<Rightarrow> analyzer \<times> world \<Rightarrow> exn option \<times> world" where
  "export_csv env output_path s =
     (case s of (self, w) \<Rightarrow>
      (case open_w env output_path of
         Some e \<Rightarrow> (Some e, w)
       | None \<Rightarrow>
          (let w1 = w\<lparr>files := (files w)(output_path \<mapsto> [])\<rparr>
           in if analysis_history self = [] then (None, w1)
              else (case write_rows env (analysis_history self) of
                      (text, e) \<Rightarrow>
                        (e, w1\<lparr>files := (files w1)(output_path \<mapsto>
                                   csv_line env (map PStr fieldnames) @ text)\<rparr>)))))"

definition export_results ::
  "'img env \<Rightarrow> string \<Rightarrow> string \<Rightarrow> analyzer \<times> world \<Rightarrow> exn option \<times> world" where
  "export_results env output_path format s =
     (case (if format = ''json''
            then (case open_w env output_path of
                    Some e \<Rightarrow> (Some e, snd s)
                  | None \<Rightarrow>
                     (case json_dump env (PList (map PDict (analysis_history (fst s)))) of
                        (text, e) \<Rightarrow> (e, (snd s)\<lparr>files := (files (snd s))(output_path \<mapsto> text)\<rparr>)))
            else if format = ''csv'' then export_csv env output_path s
            else (None, snd s)) of
        (Some e, w') \<Rightarrow> (Some e, w')
      | (None, w') \<Rightarrow> (None, print (''Results exported to: '' @ output_path) w'))"

section \<open>Sessions with one analyzer\<close>

text \<open>
  The public methods of the class, and a session: any sequence of calls on one
  instance. An exception that leaves \<open>batch_analyze\<close> or \<open>export_results\<close> reaches
  the caller; the instance and the world stay as the call left them.
\<close>

datatype call = AnalyzeImage string | BatchAnalyze string | ExportResults string string

fun step :: "'img env \<Rightarrow> call \<Rightarrow> analyzer \<times> world \<Rightarrow> analyzer \<times> world" where
  "step env (AnalyzeImage image_path) s = snd (analyze_image env image_path s)"
| "step env (BatchAnalyze directory) s = snd (batch_analyze env directory s)"
| "step env (ExportResults output_path format) s =
     (fst s, snd (export_results env output_path format s))"

definition run :: "'img env \<Rightarrow> call list \<Rightarrow> analyzer \<times> world \<Rightarrow> analyzer \<times> world" where
  "run env calls s = fold (step env) calls s"

text \<open>
  The loop of the csv export with the test for the \<open>error\<close> key taken out: what the
  export would write if every entry of the history were given a row.
\<close>

fun write_rows_untested :: "'img env \<Rightarrow> pydict list \<Rightarrow> string \<times> exn option" where
  "write_rows_untested env [] = ([], None)"
| "write_rows_untested env (result # rest) =
     (case row_of result of
        Inl e \<Rightarrow> ([], Some e)
      | Inr vs \<Rightarrow> (case write_rows_untested env rest of
                     (text, e) \<Rightarrow> (csv_line env vs @ text, e)))"

section \<open>Notions used to state the properties\<close>

text \<open>
  The first steps of \<open>analyze_image\<close> on their own: open the file, convert it unless
  its mode is already RGB, and take its array. An image is decodable when all three
  return: the result is the image forced to RGB and its pixel buffer.
\<close>

definition decode :: "'img env \<Rightarrow> string \<Rightarrow> exn + 'img \<times> ndarray" where
  "decode env image_path =
     (case image_open env image_path of
        Inl e \<Rightarrow> Inl e
      | Inr img0 \<Rightarrow>
         (case (if img_mode env img0 \<noteq> ''RGB'' then img_convert env img0 ''RGB'' else Inr img0) of
            Inl e \<Rightarrow> Inl e
          | Inr img \<Rightarrow>
             (case np_array env img of
                Inl e \<Rightarrow> Inl e
              | Inr img_array \<Rightarrow> Inr (img, img_array))))"

text \<open>
  What the image library promises of the array of an image: as many rows as the image
  is high, each as long as the image is wide.
\<close>

definition array_matches_size :: "'img env \<Rightarrow> 'img \<Rightarrow> ndarray \<Rightarrow> bool" where
  "array_matches_size env img img_array =
     (length img_array = snd (img_size env img) \<and>
      list_all (\<lambda>row. length row = fst (img_size env img)) img_array)"

definition no_error_records :: "analyzer \<Rightarrow> bool" where
  "no_error_records self = list_all (\<lambda>r. \<not> py_in ''error'' r) (analysis_history self)"

section \<open>The reductions without rounding\<close>

text \<open>
  The values the reductions would have in exact arithmetic. They are not numpy's, which
  rounds; they are what numpy returns on a buffer where no operation has anything to
  round, as on the buffers of the concrete world below, whose intermediate values are
  all multiples of a quarter below \<open>2^17\<close>.
\<close>

definition exact_var :: "real list \<Rightarrow> pyfloat" where
  "exact_var xs = (case np_mean xs of
       None \<Rightarrow> None
     | Some m \<Rightarrow> np_mean (map (\<lambda>x. \<bar>x - m\<bar> ^ 2) xs))"

definition exact_std :: "real list \<Rightarrow> pyfloat" where
  "exact_std xs = map_option sqrt (exact_var xs)"

definition exact_mean_axis2 :: "ndarray \<Rightarrow> real list list" where
  "exact_mean_axis2 a = map (map (\<lambda>(r, g, b). (val r + val g + val b) / 3)) a"

definition channel :: "nat \<Rightarrow> ndarray \<Rightarrow> real list" where
  "channel c a = map (\<lambda>(r, g, b). if c = 0 then val r else if c = 1 then val g else val b) (concat a)"

definition exact_std_axis01 :: "ndarray \<Rightarrow> pyfloat \<times> pyfloat \<times> pyfloat" where
  "exact_std_axis01 a = (exact_std (channel 0 a), exact_std (channel 1 a), exact_std (channel 2 a))"

definition exact_abs_diff0 :: "real list list \<Rightarrow> real list list" where
  "exact_abs_diff0 g = map2 (\<lambda>lower upper. map2 (\<lambda>x y. \<bar>x - y\<bar>) lower upper) (tl g) g"

definition exact_numpy :: numpy where
  "exact_numpy = \<lparr>
     np_var = (\<lambda>a. exact_var (samples a)),
     np_mean_axis2 = exact_mean_axis2,
     np_std = (\<lambda>g. exact_std (concat g)),
     np_std_axis01 = exact_std_axis01,
     np_abs_diff0 = exact_abs_diff0,
     np_mean2 = (\<lambda>g. np_mean (concat g))
   \<rparr>"

section \<open>A small concrete world\<close>

text \<open>
  One directory \<open>fossils\<close> with a decodable 2 by 2 image and a text file. A decoded
  image is its mode, its size (width, height) and its rows of pixels.
\<close>

type_synonym img0 = "string \<times> (nat \<times> nat) \<times> ndarray"

definition rock :: ndarray where
  "rock = [ [(0, 12, 18), (255, 12, 18)], [(0, 12, 18), (255, 12, 18)] ]"

definition env0 :: "img0 env" where
  "env0 = \<lparr>
     numpy = exact_numpy,
     image_open = (\<lambda>p. if p = ''fossils/rock.png'' then Inr (''RGB'', (2, 2), rock)
                        else Inl (Exn ''FileNotFoundError'' (''No such file or directory: '' @ p))),
     img_mode = fst,
     img_convert = (\<lambda>img m. Inr (m, snd img)),
     img_size = (\<lambda>img. fst (snd img)),
     np_array = (\<lambda>img. Inr (snd (snd img))),
     isoformat_now = (\<lambda>n. ''2024-05-01T12:00:00''),
     path_exists = (\<lambda>d. d = ''fossils''),
     iterdir = (\<lambda>d. Inr [(''fossils/rock.png'', ''rock.png''), (''fossils/notes.txt'', ''notes.txt'')]),
     open_w = (\<lambda>p. None),
     json_dump = (\<lambda>v. ([], None)),
     str_of = (\<lambda>v. [])
   \<rparr>"

definition flat :: ndarray where
  "flat = [ [(7, 7, 7), (7, 7, 7)] ]"

text \<open>Two buffers of one row, of variance 1000 and 500.\<close>

definition speckled :: ndarray where
  "speckled = [ [(0, 0, 0), (40, 70, 70)] ]"

definition dull :: ndarray where
  "dull = [ [(0, 0, 0), (0, 0, 60)] ]"

definition w0 :: world where
  "w0 = \<lparr>clock = 0, stdout = [], files = [''out.csv'' \<mapsto> ''kept from an earlier run'']\<rparr>"

section \<open>Shared facts\<close>

lemma py_in_keys: "py_in k d = (k \<in> set (py_keys d))"
  by (simp add: py_in_def py_keys_def map_of_eq_None_iff)

lemma decode_cases:
  obtains e where "decode env p = Inl e"
  | img img_array where "decode env p = Inr (img, img_array)"
  by (cases "decode env p") auto

lemma analyze_image_failure:
  assumes "decode env p = Inl e"
  shows "analyze_image env p s = ([(''error'', PStr (str_exn e)), (''image_path'', PStr p)], s)"
  using assms
  by (auto simp: analyze_image_def decode_def split: prod.splits sum.splits if_splits)

lemma analyze_image_success:
  assumes "decode env p = Inr (img, img_array)"
  shows "py_keys (fst (analyze_image env p s)) =
           [''timestamp'', ''image_path'', ''image_dimensions'', ''image_properties'',
            ''fossil_detection'', ''classification'', ''age_estimation'', ''preservation_quality'']"
    and "map_of (fst (analyze_image env p s)) ''image_dimensions'' =
           Some (PDict [(''width'', PInt (int (fst (img_size env img)))),
                        (''height'', PInt (int (snd (img_size env img))))])"
    and "map_of (fst (analyze_image env p s)) ''classification'' =
           Some (PDict (classify_fossil img_array))"
    and "analysis_history (fst (snd (analyze_image env p s))) =
           analysis_history (fst s) @ [fst (analyze_image env p s)]"
  using assms
  by (auto simp: analyze_image_def decode_def Let_def py_keys_def
      split: prod.splits sum.splits if_splits)

lemma decode_rock: "decode env0 ''fossils/rock.png'' = Inr ((''RGB'', (2, 2), rock), rock)"
  by (simp add: decode_def env0_def)

lemma decode_missing:
  "decode env0 ''missing.png'' =
     Inl (Exn ''FileNotFoundError'' ''No such file or directory: missing.png'')"
  by (simp add: decode_def env0_def)

section \<open>Export of an empty history\<close>

text \<open>
  C1, as stated: with an empty history the csv export leaves a file that already exists
  at the destination as it was. It does not: the destination is opened for writing
  before the history is looked at, so the earlier content is gone.
\<close>

theorem export_csv_empty_history_counterexample:
  "analysis_history (init None) = [] \<and>
   files w0 ''out.csv'' = Some ''kept from an earlier run'' \<and>
   files (snd (export_results env0 ''out.csv'' ''csv'' (init None, w0))) ''out.csv'' = Some [] \<and>
   files (snd (export_results env0 ''out.csv'' ''csv'' (init None, w0))) ''out.csv'' \<noteq>
     files w0 ''out.csv''"
  by (simp add: init_def w0_def export_results_def export_csv_def env0_def print_def)

text \<open>
  C1, amended: with an empty history, and a destination that can be opened for writing,
  the csv export raises nothing, writes no content (not even the header), and leaves the
  destination existing and empty, whatever it held before; no other file changes, and
  the completion line is printed.
\<close>

theorem export_csv_empty_history_truncates:
  assumes "analysis_history self = []" and "open_w env output_path = None"
  shows "export_results env output_path ''csv'' (self, w) =
           (None, print (''Results exported to: '' @ output_path)
                    (w\<lparr>files := (files w)(output_path \<mapsto> [])\<rparr>))"
  using assms by (simp add: export_results_def export_csv_def)

theorem export_csv_empty_history_truncates_witness:
  "analysis_history (init None) = [] \<and> open_w env0 ''out.csv'' = None \<and>
   files (snd (export_results env0 ''out.csv'' ''csv'' (init None, w0))) ''out.csv'' = Some []"
proof -
  have a: "analysis_history (init None) = []" by (simp add: init_def)
  have b: "open_w env0 ''out.csv'' = None" by (simp add: env0_def)
  from export_csv_empty_history_truncates [OF a b, of w0] a b show ?thesis
    by (simp add: print_def)
qed

section \<open>The threshold classifiers\<close>

text \<open>
  C2: for every buffer with mean brightness \<open>b\<close>, the fossil type and the period are
  Permineralized Bone and Mesozoic when \<open>b < 100\<close>, Petrified Wood and Paleozoic when
  \<open>100 \<le> b < 150\<close>, Shell Fragment and Cenozoic when \<open>150 \<le> b\<close>; the boundaries 100 and
  150 belong to the higher bracket.
\<close>

theorem classify_fossil_brackets:
  assumes "np_mean (samples buf) = Some b"
  shows "(b < 100 \<longrightarrow>
            map_of (classify_fossil buf) ''primary_type'' = Some (PStr ''Permineralized Bone'') \<and>
            map_of (classify_fossil buf) ''geological_period'' = Some (PStr ''Mesozoic'')) \<and>
         (100 \<le> b \<and> b < 150 \<longrightarrow>
            map_of (classify_fossil buf) ''primary_type'' = Some (PStr ''Petrified Wood'') \<and>
            map_of (classify_fossil buf) ''geological_period'' = Some (PStr ''Paleozoic'')) \<and>
         (150 \<le> b \<longrightarrow>
            map_of (classify_fossil buf) ''primary_type'' = Some (PStr ''Shell Fragment'') \<and>
            map_of (classify_fossil buf) ''geological_period'' = Some (PStr ''Cenozoic''))"
  using assms by (simp add: classify_fossil_def flt_lt_def)

lemma brightness_100: "np_mean (samples [ [(100, 100, 100)] ]) = Some 100"
  by (simp add: np_mean_def samples_def val_def)

lemma brightness_150: "np_mean (samples [ [(150, 150, 150), (140, 150, 160)] ]) = Some 150"
  by (simp add: np_mean_def samples_def val_def)

theorem classify_fossil_brackets_witness:
  "np_mean (samples [ [(100, 100, 100)] ]) = Some 100 \<and>
   map_of (classify_fossil [ [(100, 100, 100)] ]) ''primary_type'' = Some (PStr ''Petrified Wood'') \<and>
   np_mean (samples [ [(150, 150, 150), (140, 150, 160)] ]) = Some 150 \<and>
   map_of (classify_fossil [ [(150, 150, 150), (140, 150, 160)] ]) ''primary_type'' =
     Some (PStr ''Shell Fragment'')"
  using classify_fossil_brackets [OF brightness_100] classify_fossil_brackets [OF brightness_150]
    brightness_100 brightness_150
  by simp

text \<open>
  C3: for every buffer whose colour variance, as numpy computes it, is \<open>v\<close>, the quality
  and the score are Excellent and 9.2 when \<open>v > 1000\<close>, Good and 7.5 when
  \<open>500 < v \<le> 1000\<close>, Fair and 5.8 when \<open>v \<le> 500\<close>; the boundaries 1000 and 500 belong
  to the lower bracket. The completeness is always Partial and the recommendation always
  the same storage advice.
\<close>

theorem assess_preservation_brackets:
  assumes "np_var np buf = Some v"
  shows "(1000 < v \<longrightarrow>
            map_of (assess_preservation np buf) ''quality_rating'' = Some (PStr ''Excellent'') \<and>
            map_of (assess_preservation np buf) ''preservation_score'' = Some (PFloat (Some (92 / 10)))) \<and>
         (500 < v \<and> v \<le> 1000 \<longrightarrow>
            map_of (assess_preservation np buf) ''quality_rating'' = Some (PStr ''Good'') \<and>
            map_of (assess_preservation np buf) ''preservation_score'' = Some (PFloat (Some (75 / 10)))) \<and>
         (v \<le> 500 \<longrightarrow>
            map_of (assess_preservation np buf) ''quality_rating'' = Some (PStr ''Fair'') \<and>
            map_of (assess_preservation np buf) ''preservation_score'' = Some (PFloat (Some (58 / 10)))) \<and>
         map_of (assess_preservation np buf) ''completeness'' = Some (PStr ''Partial'') \<and>
         map_of (assess_preservation np buf) ''recommended_preservation'' =
           Some (PStr ''Climate-controlled storage'')"
  using assms
  by (cases "1000 < v"; cases "500 < v"; simp add: assess_preservation_def flt_gt_def)

lemma variance_1000: "np_var exact_numpy speckled = Some 1000"
  by (simp add: exact_numpy_def speckled_def exact_var_def np_mean_def samples_def val_def)

lemma variance_500: "np_var exact_numpy dull = Some 500"
  by (simp add: exact_numpy_def dull_def exact_var_def np_mean_def samples_def val_def)

theorem assess_preservation_brackets_witness:
  "np_var exact_numpy speckled = Some 1000 \<and>
   map_of (assess_preservation exact_numpy speckled) ''quality_rating'' = Some (PStr ''Good'') \<and>
   map_of (assess_preservation exact_numpy speckled) ''preservation_score'' =
     Some (PFloat (Some (75 / 10))) \<and>
   np_var exact_numpy dull = Some 500 \<and>
   map_of (assess_preservation exact_numpy dull) ''quality_rating'' = Some (PStr ''Fair'') \<and>
   map_of (assess_preservation exact_numpy dull) ''preservation_score'' =
     Some (PFloat (Some (58 / 10)))"
  using assess_preservation_brackets [OF variance_1000] assess_preservation_brackets [OF variance_500]
    variance_1000 variance_500
  by simp

section \<open>analyze_image\<close>

text \<open>
  C4: for a path whose image cannot be opened, converted or read, \<open>analyze_image\<close> returns
  (it raises nothing) the record with exactly the two keys \<open>error\<close>, holding the message
  of the exception, and \<open>image_path\<close>, holding the path; the analyzer and the world are
  as before.
\<close>

theorem analyze_image_undecodable:
  assumes "decode env p = Inl e"
  shows "analyze_image env p s = ([(''error'', PStr (str_exn e)), (''image_path'', PStr p)], s) \<and>
         py_keys (fst (analyze_image env p s)) = [''error'', ''image_path'']"
  using analyze_image_failure [OF assms, of s] by (simp add: py_keys_def)

theorem analyze_image_undecodable_witness:
  "decode env0 ''missing.png'' =
     Inl (Exn ''FileNotFoundError'' ''No such file or directory: missing.png'') \<and>
   analyze_image env0 ''missing.png'' (init None, w0) =
     ([(''error'', PStr ''No such file or directory: missing.png''),
       (''image_path'', PStr ''missing.png'')], (init None, w0))"
  using analyze_image_undecodable [OF decode_missing, of "(init None, w0)"] decode_missing
  by simp

text \<open>
  C5: for a decodable image, the result of \<open>analyze_image\<close> has no \<open>error\<close> key, and
  its \<open>width\<close> and \<open>height\<close> are the size of the image forced to RGB; where the array
  of that image has the shape the library promises, they are the number of columns and
  of rows of the pixel buffer.
\<close>

theorem analyze_image_decodable:
  assumes "decode env p = Inr (img, img_array)"
  shows "\<not> py_in ''error'' (fst (analyze_image env p s)) \<and>
         (\<exists>wd ht.
            getitem (PDict (fst (analyze_image env p s))) ''image_dimensions'' =
              Inr (PDict [(''width'', PInt (int wd)), (''height'', PInt (int ht))]) \<and>
            (wd, ht) = img_size env img \<and>
            (array_matches_size env img img_array \<longrightarrow>
               ht = length img_array \<and> (\<forall>row \<in> set img_array. wd = length row)))"
  using analyze_image_success(1,2) [OF assms, of s]
  by (cases "img_size env img")
     (auto simp: py_in_keys getitem_def array_matches_size_def list_all_iff)

theorem analyze_image_decodable_witness:
  "decode env0 ''fossils/rock.png'' = Inr ((''RGB'', (2, 2), rock), rock) \<and>
   array_matches_size env0 (''RGB'', (2, 2), rock) rock \<and>
   \<not> py_in ''error'' (fst (analyze_image env0 ''fossils/rock.png'' (init None, w0))) \<and>
   getitem (PDict (fst (analyze_image env0 ''fossils/rock.png'' (init None, w0)))) ''image_dimensions'' =
     Inr (PDict [(''width'', PInt 2), (''height'', PInt 2)]) \<and>
   length rock = 2 \<and> map length rock = [2, 2]"
proof -
  have m: "array_matches_size env0 (''RGB'', (2, 2), rock) rock"
    by (simp add: array_matches_size_def env0_def rock_def)
  have l: "map length rock = [2, 2]"
    by (simp add: rock_def)
  from analyze_image_decodable [OF decode_rock, of "(init None, w0)"] m decode_rock l
  show ?thesis by (auto simp: env0_def)
qed

section \<open>batch_analyze on a missing directory\<close>

text \<open>
  C6: if the directory does not exist, \<open>batch_analyze\<close> returns (it raises nothing) the
  list of one record, whose only key is \<open>error\<close> and whose message names the directory;
  the analyzer and the world are as before.
\<close>

theorem batch_analyze_missing_directory:
  assumes "\<not> path_exists env directory"
  shows "batch_analyze env directory s =
           (Inr [ [(''error'', PStr (''Directory not found: '' @ directory))] ], s)"
  using assms by (simp add: batch_analyze_def)

theorem batch_analyze_missing_directory_witness:
  "\<not> path_exists env0 ''nowhere'' \<and>
   batch_analyze env0 ''nowhere'' (init None, w0) =
     (Inr [ [(''error'', PStr ''Directory not found: nowhere'')] ], (init None, w0))"
proof -
  have h: "\<not> path_exists env0 ''nowhere''" by (simp add: env0_def)
  from batch_analyze_missing_directory [OF h, of "(init None, w0)"] h show ?thesis by simp
qed

section \<open>Mineralization\<close>

lemma Max_of_three: "Max {x, y, z :: real} = max (max x y) z"
  by (simp add: max.commute max.left_commute)

lemma sqrt_of_square: "0 \<le> r \<Longrightarrow> x = r * r \<Longrightarrow> sqrt x = r"
  using real_sqrt_abs2 [of r] by simp

text \<open>
  C7: for every buffer, \<open>detect_mineralization\<close> is true exactly when the three
  per-channel standard deviations that numpy computes over all pixels are numbers and
  the largest of them exceeds 50. (Where one of them is NaN, as on a buffer without
  pixels, the maximum is NaN and the flag is false.)
\<close>

theorem detect_mineralization_max_std:
  "detect_mineralization np a =
     (\<exists>x y z. np_std_axis01 np a = (Some x, Some y, Some z) \<and> 50 < Max {x, y, z})"
proof -
  obtain p q r where t: "np_std_axis01 np a = (p, q, r)"
    by (cases "np_std_axis01 np a") auto
  show ?thesis
    by (cases p; cases q; cases r)
       (simp_all add: detect_mineralization_def t np_max_def flt_gt_def Max_of_three)
qed

lemma std_rock: "np_std_axis01 exact_numpy rock = (Some (255 / 2), Some 0, Some 0)"
  by (simp add: exact_numpy_def exact_std_axis01_def exact_std_def exact_var_def np_mean_def
      channel_def rock_def val_def sqrt_of_square)

lemma std_flat: "np_std_axis01 exact_numpy flat = (Some 0, Some 0, Some 0)"
  by (simp add: exact_numpy_def exact_std_axis01_def exact_std_def exact_var_def np_mean_def
      channel_def flat_def val_def)

theorem detect_mineralization_max_std_witness:
  "np_std_axis01 exact_numpy rock = (Some (255 / 2), Some 0, Some 0) \<and>
   detect_mineralization exact_numpy rock \<and>
   np_std_axis01 exact_numpy flat = (Some 0, Some 0, Some 0) \<and>
   \<not> detect_mineralization exact_numpy flat"
proof -
  have "np_std_axis01 exact_numpy rock = (Some (255 / 2), Some 0, Some 0) \<and>
        (50 :: real) < Max {255 / 2, 0, 0}"
    using std_rock by simp
  then have "\<exists>x y z. np_std_axis01 exact_numpy rock = (Some x, Some y, Some z) \<and>
        50 < Max {x, y, z}"
    by blast
  with detect_mineralization_max_std [of exact_numpy rock]
  have r: "detect_mineralization exact_numpy rock"
    by blast
  from detect_mineralization_max_std [of exact_numpy flat] std_flat
  have f: "\<not> detect_mineralization exact_numpy flat"
    by simp
  from r f std_rock std_flat show ?thesis by blast
qed

section \<open>The history holds successful analyses only\<close>

lemma analyze_image_keeps_invariant:
  assumes "no_error_records (fst s)"
  shows "no_error_records (fst (snd (analyze_image env p s)))"
proof (rule decode_cases [of env p])
  fix e assume "decode env p = Inl e"
  from analyze_image_failure [OF this, of s] assms show ?thesis by simp
next
  fix img img_array assume d: "decode env p = Inr (img, img_array)"
  from analyze_image_success(1,4) [OF d, of s] assms show ?thesis
    by (simp add: no_error_records_def py_in_keys)
qed

lemma analyze_entries_keeps_invariant:
  "no_error_records (fst s) \<Longrightarrow>
     no_error_records (fst (snd (analyze_entries env entries results s)))"
proof (induction env entries results s rule: analyze_entries.induct)
  case (1 env results s)
  then show ?case by simp
next
  case (2 env img_file name rest results s)
  show ?case
  proof (cases "lower (suffix name) \<in> set image_extensions")
    case True
    obtain result s' where a:
      "analyze_image env img_file (fst s, print (''Analyzing: '' @ name) (snd s)) = (result, s')"
      by (cases "analyze_image env img_file (fst s, print (''Analyzing: '' @ name) (snd s))") auto
    have "no_error_records (fst s')"
      using analyze_image_keeps_invariant
        [of "(fst s, print (''Analyzing: '' @ name) (snd s))" env img_file] "2.prems" a
      by simp
    from "2.IH"(1) [OF True a [symmetric] this] True a show ?thesis by simp
  next
    case False
    with 2 show ?thesis by simp
  qed
qed

lemma batch_analyze_keeps_invariant:
  "no_error_records (fst s) \<Longrightarrow> no_error_records (fst (snd (batch_analyze env directory s)))"
proof -
  assume inv: "no_error_records (fst s)"
  show ?thesis
  proof (cases "path_exists env directory")
    case False
    with inv show ?thesis by (simp add: batch_analyze_def)
  next
    case True
    show ?thesis
    proof (cases "iterdir env directory")
      case (Inl e)
      with True inv show ?thesis by (simp add: batch_analyze_def)
    next
      case (Inr entries)
      from analyze_entries_keeps_invariant [OF inv, of env entries "[]"] True Inr
      show ?thesis by (auto simp: batch_analyze_def split: prod.splits)
    qed
  qed
qed

lemma step_keeps_invariant:
  "no_error_records (fst s) \<Longrightarrow> no_error_records (fst (step env c s))"
  by (cases c) (simp_all add: analyze_image_keeps_invariant batch_analyze_keeps_invariant)

lemma run_keeps_invariant:
  "no_error_records (fst s) \<Longrightarrow> no_error_records (fst (run env calls s))"
  unfolding run_def
  by (induction calls arbitrary: s) (simp_all add: step_keeps_invariant)

lemma write_rows_never_skips:
  "list_all (\<lambda>r. \<not> py_in ''error'' r) history \<Longrightarrow>
     write_rows env history = write_rows_untested env history"
  by (induction history) (simp_all split: sum.splits prod.splits)

text \<open>
  C8: a call of \<open>analyze_image\<close> appends its result to the history when the analysis
  succeeds and leaves the history as it was when it fails. So in every session that
  starts from a fresh analyzer the history holds no record with an \<open>error\<close> key, and
  the csv export writes what it would write without its test for that key: the branch
  that skips a record is never taken.
\<close>

theorem history_holds_successes_only:
  "(case analyze_image env p (self, w) of
      (result, self', w') \<Rightarrow>
        if py_in ''error'' result
        then analysis_history self' = analysis_history self
        else analysis_history self' = analysis_history self @ [result]) \<and>
   (\<forall>r \<in> set (analysis_history (fst (run env calls (init mp, w)))). \<not> py_in ''error'' r) \<and>
   write_rows env (analysis_history (fst (run env calls (init mp, w)))) =
     write_rows_untested env (analysis_history (fst (run env calls (init mp, w))))"
proof -
  have one: "(case analyze_image env p (self, w) of
      (result, self', w') \<Rightarrow>
        if py_in ''error'' result
        then analysis_history self' = analysis_history self
        else analysis_history self' = analysis_history self @ [result])"
  proof (rule decode_cases [of env p])
    fix e assume "decode env p = Inl e"
    from analyze_image_failure [OF this, of "(self, w)"] show ?thesis
      by (simp add: py_in_def)
  next
    fix img img_array assume d: "decode env p = Inr (img, img_array)"
    from analyze_image_success(1,4) [OF d, of "(self, w)"] show ?thesis
      by (auto simp: py_in_keys split: prod.splits)
  qed
  have "no_error_records (fst (init mp, w))"
    by (simp add: no_error_records_def init_def)
  from run_keeps_invariant [OF this, of env calls]
  have inv: "list_all (\<lambda>r. \<not> py_in ''error'' r) (analysis_history (fst (run env calls (init mp, w))))"
    by (simp add: no_error_records_def)
  from one inv write_rows_never_skips [OF inv, of env] show ?thesis
    by (simp add: list_all_iff)
qed

lemma extension_rock: "lower (suffix ''rock.png'') \<in> set image_extensions"
  by (simp add: lower_def suffix_def rfind_def image_extensions_def)

lemma extension_notes: "lower (suffix ''notes.txt'') \<notin> set image_extensions"
  by (simp add: lower_def suffix_def rfind_def image_extensions_def)

lemma session_history_length:
  "length (analysis_history (fst (run env0 [AnalyzeImage ''missing.png'', BatchAnalyze ''fossils'']
       (init None, w0)))) = 1"
proof -
  have a: "analyze_image env0 ''missing.png'' (init None, w0) =
      ([(''error'', PStr ''No such file or directory: missing.png''),
        (''image_path'', PStr ''missing.png'')], (init None, w0))"
    using analyze_image_failure [OF decode_missing, of "(init None, w0)"] by simp
  have p: "path_exists env0 ''fossils''" by (simp add: env0_def)
  have i: "iterdir env0 ''fossils'' =
      Inr [(''fossils/rock.png'', ''rock.png''), (''fossils/notes.txt'', ''notes.txt'')]"
    by (simp add: env0_def)
  have h: "analysis_history (fst (snd (analyze_image env0 ''fossils/rock.png''
              (init None, print ''Analyzing: rock.png'' w0)))) =
           [fst (analyze_image env0 ''fossils/rock.png'' (init None, print ''Analyzing: rock.png'' w0))]"
    using analyze_image_success(4) [OF decode_rock, of "(init None, print ''Analyzing: rock.png'' w0)"]
    by (simp add: init_def)
  show ?thesis
    using a p i h extension_rock extension_notes
    by (auto simp: run_def batch_analyze_def split: prod.splits)
qed

theorem history_holds_successes_only_witness:
  "analysis_history (fst (snd (analyze_image env0 ''missing.png'' (init None, w0)))) = [] \<and>
   map (py_in ''error'')
     (analysis_history (fst (run env0 [AnalyzeImage ''missing.png'', BatchAnalyze ''fossils'']
        (init None, w0)))) = [False] \<and>
   write_rows env0
     (analysis_history (fst (run env0 [AnalyzeImage ''missing.png'', BatchAnalyze ''fossils'']
        (init None, w0)))) =
   write_rows_untested env0
     (analysis_history (fst (run env0 [AnalyzeImage ''missing.png'', BatchAnalyze ''fossils'']
        (init None, w0))))"
proof -
  let ?H = "analysis_history (fst (run env0
      [AnalyzeImage ''missing.png'', BatchAnalyze ''fossils''] (init None, w0)))"
  have a: "analysis_history (fst (snd (analyze_image env0 ''missing.png'' (init None, w0)))) = []"
    using analyze_image_failure [OF decode_missing, of "(init None, w0)"] by (simp add: init_def)
  obtain r where h: "?H = [r]"
    using session_history_length by (auto simp: length_Suc_conv)
  note t = history_holds_successes_only
    [where env = env0 and p = "''missing.png''" and self = "init None" and w = w0
       and calls = "[AnalyzeImage ''missing.png'', BatchAnalyze ''fossils'']" and mp = None]
  from t have t2: "\<forall>r \<in> set ?H. \<not> py_in ''error'' r"
    and t3: "write_rows env0 ?H = write_rows_untested env0 ?H"
    by blast+
  from t2 h have "map (py_in ''error'') ?H = [False]" by simp
  with a t3 show ?thesis by blast
qed

section \<open>Suggested species\<close>

lemma classify_fossil_species:
  "\<exists>ft names. map_of (classify_fossil buf) ''primary_type'' = Some (PStr ft) \<and>
     map_of species_database ft = Some names \<and> length names = 3 \<and>
     map_of (classify_fossil buf) ''possible_species'' = Some (PList (map PStr names))"
proof (cases "flt_lt (np_mean (samples buf)) 100")
  case True
  then show ?thesis
    by (simp add: classify_fossil_def suggest_species_def species_database_def)
next
  case False
  then show ?thesis
    by (cases "flt_lt (np_mean (samples buf)) 150")
       (simp_all add: classify_fossil_def suggest_species_def species_database_def)
qed

text \<open>
  C9: in every successful result of \<open>analyze_image\<close> the fossil type is a key of the
  species table and \<open>possible_species\<close> is the table's entry for it, three names; the
  fallback for an unknown type is never returned.
\<close>

theorem possible_species_three:
  assumes "\<not> py_in ''error'' (fst (analyze_image env p s))"
  shows "\<exists>ft names.
           bind_exn (getitem (PDict (fst (analyze_image env p s))) ''classification'')
             (\<lambda>c. getitem c ''primary_type'') = Inr (PStr ft) \<and>
           map_of species_database ft = Some names \<and> length names = 3 \<and>
           names \<noteq> [''Unknown''] \<and>
           bind_exn (getitem (PDict (fst (analyze_image env p s))) ''classification'')
             (\<lambda>c. getitem c ''possible_species'') = Inr (PList (map PStr names))"
proof (rule decode_cases [of env p])
  fix e assume "decode env p = Inl e"
  from analyze_image_failure [OF this, of s] assms show ?thesis
    by (simp add: py_in_def)
next
  fix img img_array assume d: "decode env p = Inr (img, img_array)"
  from classify_fossil_species [of img_array] analyze_image_success(3) [OF d, of s]
  show ?thesis by (auto simp: getitem_def bind_exn_def)
qed

theorem possible_species_three_witness:
  "\<not> py_in ''error'' (fst (analyze_image env0 ''fossils/rock.png'' (init None, w0))) \<and>
   (\<exists>ft names.
      bind_exn (getitem (PDict (fst (analyze_image env0 ''fossils/rock.png'' (init None, w0))))
                  ''classification'')
        (\<lambda>c. getitem c ''primary_type'') = Inr (PStr ft) \<and>
      map_of species_database ft = Some names \<and> length names = 3 \<and>
      names \<noteq> [''Unknown''] \<and>
      bind_exn (getitem (PDict (fst (analyze_image env0 ''fossils/rock.png'' (init None, w0))))
                  ''classification'')
        (\<lambda>c. getitem c ''possible_species'') = Inr (PList (map PStr names)))"
proof -
  have h: "\<not> py_in ''error'' (fst (analyze_image env0 ''fossils/rock.png'' (init None, w0)))"
    using analyze_image_success(1) [OF decode_rock, of "(init None, w0)"]
    by (simp add: py_in_keys)
  from possible_species_three [OF h] h show ?thesis by simp
qed

section \<open>Export in an unknown format\<close>

text \<open>
  C10: \<open>export_results\<close> with a format other than \<open>json\<close> and \<open>csv\<close> raises nothing,
  changes no file, and prints the line that says the results were exported.
\<close>

theorem export_results_other_format:
  assumes "format \<noteq> ''json''" and "format \<noteq> ''csv''"
  shows "export_results env output_path format s =
           (None, print (''Results exported to: '' @ output_path) (snd s)) \<and>
         files (snd (export_results env output_path format s)) = files (snd s)"
  using assms by (simp add: export_results_def print_def)

theorem export_results_other_format_witness:
  "''xml'' \<noteq> ''json'' \<and> ''xml'' \<noteq> ''csv'' \<and>
   fst (export_results env0 ''out.xml'' ''xml'' (init None, w0)) = None \<and>
   stdout (snd (export_results env0 ''out.xml'' ''xml'' (init None, w0))) =
     [''Results exported to: out.xml''] \<and>
   files (snd (export_results env0 ''out.xml'' ''xml'' (init None, w0))) ''out.xml'' = None"
proof -
  have a: "''xml'' \<noteq> ''json''" and b: "''xml'' \<noteq> ''csv''" by simp_all
  from export_results_other_format [OF a b, of env0 "''out.xml''" "(init None, w0)"]
  show ?thesis by (simp add: print_def w0_def)
qed

end
